theory Spec2Isabelle
  imports
    Complex_Main
    "HOL-Library.Multiset"
    "HOL-Library.Char_ord"
    "HOL-Library.List_Lexorder"
    "HOL-Library.Sublist"
begin

section \<open>The airport table\<close>

text \<open>
  \<^verbatim>\<open>final_project.py\<close> is one script over a pandas table read from
  \<^verbatim>\<open>new_england_airports.csv\<close>. A row of the file is a record with the columns the
  script reads. A cell that pandas holds as NaN (an empty CSV cell) is \<open>None\<close>; the
  columns that may be missing are the ones the data model marks optional, and the two
  coordinates, which the load step checks. Strings are ordered as Python orders them,
  character by character.

  A numeric cell is a \<open>float64\<close>: a number, taken as a \<open>real\<close> since the script only
  compares such cells, takes their maximum and averages them, or NaN. NaN is itself a
  value of the numeric type of pandas, not a marker outside it: \<open>None\<close> in a
  \<open>float64\<close> stands for that float, wherever it occurs, in a cell or in what a
  function returns.
\<close>

type_synonym float64 = "real option"

record csv_row =
  name :: string
  municipality :: "string option"
  iso_region :: string
  type :: string
  scheduled_service :: string
  elevation_ft :: float64
  latitude_deg :: float64
  longitude_deg :: float64

text \<open>
  A row of the table \<^verbatim>\<open>data\<close>: the columns of the file and the two columns that
  lines 161 and 162 assign. A cell of a column that has not been assigned yet is
  \<open>None\<close>.
\<close>

record airport = csv_row +
  name_length :: "nat option"
  high_altitude :: "bool option"

type_synonym dataframe = "airport list"

definition of_csv :: "csv_row \<Rightarrow> airport" where
  "of_csv r =
     \<lparr>name = name r, municipality = municipality r, iso_region = iso_region r,
      type = type r, scheduled_service = scheduled_service r,
      elevation_ft = elevation_ft r, latitude_deg = latitude_deg r,
      longitude_deg = longitude_deg r, name_length = None, high_altitude = None\<rparr>"

subsection \<open>Column operations of pandas and Python\<close>

text \<open>\<^verbatim>\<open>Series.dropna()\<close>: the values that are present, in order.\<close>

fun dropna :: "'a option list \<Rightarrow> 'a list" where
  "dropna [] = []"
| "dropna (None # xs) = dropna xs"
| "dropna (Some x # xs) = x # dropna xs"

text \<open>\<^verbatim>\<open>Series.unique()\<close>: each value once, in order of first appearance.\<close>

fun unique :: "'a list \<Rightarrow> 'a list" where
  "unique [] = []"
| "unique (x # xs) = x # unique (filter (\<lambda>y. y \<noteq> x) xs)"

text \<open>
  \<^verbatim>\<open>Series.max()\<close> skips NaN and returns NaN when no value is left, so also on an
  empty column.
\<close>

definition series_max :: "float64 list \<Rightarrow> float64" where
  "series_max xs = (case dropna xs of [] \<Rightarrow> None | y # ys \<Rightarrow> Some (fold max ys y))"

text \<open>
  \<^verbatim>\<open>Series.mean()\<close> skips NaN: the sum of the present values over their number, and
  NaN when there is none. It raises nothing on an empty column.
\<close>

definition series_mean :: "float64 list \<Rightarrow> float64" where
  "series_mean xs =
     (case dropna xs of [] \<Rightarrow> None
      | y # ys \<Rightarrow> Some (sum_list (y # ys) / real (length (y # ys))))"

text \<open>
  \<^verbatim>\<open>column == value\<close>, cell by cell: a missing cell equals nothing, and nothing
  equals the \<^verbatim>\<open>None\<close> that a select box over no options returns.
\<close>

fun cell_eq :: "'a option \<Rightarrow> 'a option \<Rightarrow> bool" where
  "cell_eq (Some a) (Some b) = (a = b)"
| "cell_eq _ _ = False"

text \<open>\<^verbatim>\<open>column > 2000\<close>, cell by cell: a comparison with NaN is False.\<close>

definition gt_2000 :: "float64 \<Rightarrow> bool" where
  "gt_2000 v = (case v of None \<Rightarrow> False | Some e \<Rightarrow> e > 2000)"

subsection \<open>Loading (lines 21 to 30)\<close>

text \<open>
  What \<^verbatim>\<open>pd.read_csv\<close> does with the file is outside the script; its outcome is the
  input here. The two handlers show a message and stop the script.
\<close>

datatype read_csv = FileNotFoundError | Exception string | Rows "csv_row list"

definition load :: "read_csv \<Rightarrow> string + dataframe" where
  "load res =
     (case res of
        FileNotFoundError \<Rightarrow>
          Inl ''The dataset file could not be found. Please ensure 'new_england_airports.csv' is in the correct location.''
      | Exception e \<Rightarrow> Inl (''An unexpected error occurred while loading the data: '' @ e)
      | Rows rs \<Rightarrow>
          Inr (filter (\<lambda>r. latitude_deg r \<noteq> None \<and> longitude_deg r \<noteq> None) (map of_csv rs)))"

subsection \<open>region_summary (lines 46 to 50)\<close>

text \<open>
  \<^verbatim>\<open>def region_summary(df, region='US-CT')\<close>. The optional argument is \<open>None\<close> when
  the caller leaves it out, and the default is filled in then.
\<close>

definition default_region :: string where
  "default_region = ''US-CT''"

definition region_summary :: "dataframe \<Rightarrow> string option \<Rightarrow> nat \<times> float64" where
  "region_summary df region_arg =
     (let region = (case region_arg of None \<Rightarrow> default_region | Some r \<Rightarrow> r);
          subset = filter (\<lambda>r. iso_region r = region) df;
          count = length subset;
          max_elev = series_max (map elevation_ft subset)
      in (count, max_elev))"

subsection \<open>The filter page (lines 55 to 84)\<close>

definition region_list :: "dataframe \<Rightarrow> string list" where
  "region_list data = sort (unique (map iso_region data))"

definition region_airports :: "dataframe \<Rightarrow> string option \<Rightarrow> dataframe" where
  "region_airports data region =
     filter (\<lambda>r. cell_eq (Some (iso_region r)) region) data"

definition city_list :: "dataframe \<Rightarrow> string list" where
  "city_list df = sort (unique (dropna (map municipality df)))"

definition scheduled_only :: "bool \<Rightarrow> dataframe \<Rightarrow> dataframe" where
  "scheduled_only checked df =
     (if checked then filter (\<lambda>r. scheduled_service r = ''yes'') df else df)"

definition city_filtered_airports :: "dataframe \<Rightarrow> string option \<Rightarrow> dataframe" where
  "city_filtered_airports df city =
     filter (\<lambda>r. cell_eq (municipality r) city) df"

text \<open>What the page shows under its second heading: the table, or a sentence.\<close>

datatype city_output = Table dataframe | Text string

definition city_section :: "dataframe \<Rightarrow> city_output" where
  "city_section city_filtered =
     (if city_filtered \<noteq> [] then Table city_filtered
      else Text ''No airports found in this city.'')"

subsection \<open>The charts page (lines 90 to 117)\<close>

text \<open>
  \<^verbatim>\<open>data['iso_region'].value_counts()\<close> (line 92): for each region code that occurs,
  the number of rows that have it. pandas lists the entries by falling count; the
  order of the entries plays no part below and is not kept.
\<close>

definition value_counts :: "string list \<Rightarrow> (string \<times> nat) multiset" where
  "value_counts xs = mset (map (\<lambda>v. (v, count_list xs v)) (unique xs))"

text \<open>
  \<^verbatim>\<open>ax2.pie(region_counts, ...)\<close> (line 94) draws one wedge for each entry. Of no
  entry at all it draws nothing: it raises \<^verbatim>\<open>ValueError\<close>, which the script does not
  catch.
\<close>

definition pie :: "(string \<times> nat) multiset \<Rightarrow> string + (string \<times> nat) multiset" where
  "pie region_counts = (if region_counts = {#} then Inl ''ValueError'' else Inr region_counts)"

text \<open>
  \<^verbatim>\<open>DataFrame.sort_values(by, ascending)\<close> with the defaults \<^verbatim>\<open>kind='quicksort'\<close>
  and \<^verbatim>\<open>na_position='last'\<close>. pandas sets the rows with a missing key aside, sorts
  the keys of the others in ascending order with the routine that \<^verbatim>\<open>kind\<close> names,
  for a descending sort on the reversed rows with the result reversed again, and puts
  the rows with a missing key last. The routine is numpy's, not the script's, and
  pandas documents \<^verbatim>\<open>quicksort\<close> as not stable: what is known of it is that it
  returns the rows it was given, in ascending order of their keys. It is a parameter
  here, and \<open>sorting_routine\<close> is what is known of it.
\<close>

type_synonym argsort = "(airport \<Rightarrow> real) \<Rightarrow> airport list \<Rightarrow> airport list"

definition sorting_routine :: "argsort \<Rightarrow> bool" where
  "sorting_routine srt =
     (\<forall>key xs. mset (srt key xs) = mset xs \<and> sorted (map key (srt key xs)))"

definition sort_values ::
  "argsort \<Rightarrow> (airport \<Rightarrow> float64) \<Rightarrow> bool \<Rightarrow> dataframe \<Rightarrow> dataframe" where
  "sort_values srt col ascending df =
     (let present = filter (\<lambda>r. col r \<noteq> None) df;
          missing = filter (\<lambda>r. col r = None) df;
          key = (\<lambda>r. the (col r))
      in (if ascending then srt key present else rev (srt key (rev present))) @ missing)"

text \<open>
  What it means for two keys to stand in the order asked for: two present keys
  compare in the direction of the sort, and a missing key never comes before a
  present one.
\<close>

definition key_order :: "bool \<Rightarrow> float64 \<Rightarrow> float64 \<Rightarrow> bool" where
  "key_order ascending a b =
     (case (a, b) of
        (Some x, Some y) \<Rightarrow> (if ascending then x \<le> y else y \<le> x)
      | (None, Some y) \<Rightarrow> False
      | _ \<Rightarrow> True)"

text \<open>\<^verbatim>\<open>DataFrame.head(n)\<close> for a count \<open>n\<close>.\<close>

definition head :: "nat \<Rightarrow> dataframe \<Rightarrow> dataframe" where
  "head n df = take n df"

definition top_elev :: "argsort \<Rightarrow> dataframe \<Rightarrow> dataframe" where
  "top_elev srt data = head 10 (sort_values srt elevation_ft False data)"

text \<open>
  Two routines that fit \<open>sorting_routine\<close>: insertion sort, which keeps rows of equal
  keys in the order it found them, and insertion sort run from the other end, which
  does not.
\<close>

definition stable_sort :: argsort where
  "stable_sort key xs = sort_key key xs"

definition backward_sort :: argsort where
  "backward_sort key xs = sort_key key (rev xs)"

text \<open>
  \<^verbatim>\<open>pd.pivot_table(data, index, columns, aggfunc='size', fill_value)\<close>: the rows are
  grouped by the pair of their two labels and each group is counted; the counts are
  laid out with the sorted labels of the one column down and those of the other
  across, and a pair that no row has gets \<open>fill_value\<close>.
\<close>

definition group_size ::
  "(airport \<Rightarrow> string) \<Rightarrow> (airport \<Rightarrow> string) \<Rightarrow> dataframe \<Rightarrow> string \<times> string \<Rightarrow> nat option" where
  "group_size idx col df =
     (\<lambda>(r, c). if \<exists>x \<in> set df. idx x = r \<and> col x = c
               then Some (length (filter (\<lambda>x. idx x = r \<and> col x = c) df))
               else None)"

record pivot =
  index :: "string list"
  columns :: "string list"
  cells :: "int list list"

definition pivot_table ::
  "dataframe \<Rightarrow> (airport \<Rightarrow> string) \<Rightarrow> (airport \<Rightarrow> string) \<Rightarrow> int \<Rightarrow> pivot" where
  "pivot_table data idx col fill_value =
     (let grouped = group_size idx col data;
          index = sort (unique (map idx data));
          columns = sort (unique (map col data))
      in \<lparr>index = index, columns = columns,
          cells = map (\<lambda>r. map (\<lambda>c. case grouped (r, c) of
                                        None \<Rightarrow> fill_value
                                      | Some n \<Rightarrow> int n) columns) index\<rparr>)"

definition pivot :: "dataframe \<Rightarrow> pivot" where
  "pivot data = pivot_table data iso_region type 0"

subsection \<open>The map page (lines 124 to 130)\<close>

record view_state =
  latitude :: float64
  longitude :: float64
  zoom :: nat
  pitch :: nat

definition initial_view_state :: "dataframe \<Rightarrow> view_state" where
  "initial_view_state data =
     \<lparr>latitude = series_mean (map latitude_deg data),
      longitude = series_mean (map longitude_deg data),
      zoom = 5, pitch = 0\<rparr>"

subsection \<open>The derived columns (lines 157 to 162)\<close>

definition add_name_length :: "dataframe \<Rightarrow> dataframe" where
  "add_name_length data = map (\<lambda>r. r\<lparr>name_length := Some (length (name r))\<rparr>) data"

definition add_high_altitude :: "dataframe \<Rightarrow> dataframe" where
  "add_high_altitude data = map (\<lambda>r. r\<lparr>high_altitude := Some (gt_2000 (elevation_ft r))\<rparr>) data"

subsection \<open>The script, statement by statement\<close>

text \<open>
  The statements of the script that touch the table, in the order of the file. What
  the user chose in the widgets and what the library calls return is the input of a
  run. A page is what it computes from the table, or the exception that ends it; the
  drawing of the widgets and charts is left out.
\<close>

datatype page = Airport_Filter | Charts_Analysis | Map_Info

record inputs =
  csv :: read_csv
  chosen_page :: page
  selected_region :: "string option"
  selected_city :: "string option"
  show_scheduled_only :: bool
  quicksort :: argsort

datatype view =
    Filter_View dataframe city_output
  | Charts_View "(string \<times> nat) multiset" dataframe pivot
  | Map_View view_state

datatype stmt =
    Load_Data
  | Region_Summaries
  | Render_Page
  | Region_Lengths
  | Name_Length
  | High_Altitude

record state =
  data :: dataframe
  stopped :: "string option"
  summary_default :: "(nat \<times> float64) option"
  summary_custom :: "(nat \<times> float64) option"
  shown :: "view option"
  region_lengths :: "nat list option"

definition render_page :: "inputs \<Rightarrow> dataframe \<Rightarrow> string + view" where
  "render_page inp df =
     (case chosen_page inp of
        Airport_Filter \<Rightarrow>
          (let in_region = region_airports df (selected_region inp);
               in_region = scheduled_only (show_scheduled_only inp) in_region
           in Inr (Filter_View in_region
                (city_section (city_filtered_airports in_region (selected_city inp)))))
      | Charts_Analysis \<Rightarrow>
          (case pie (value_counts (map iso_region df)) of
             Inl exn \<Rightarrow> Inl exn
           | Inr region_counts \<Rightarrow>
               Inr (Charts_View region_counts (top_elev (quicksort inp) df) (pivot df)))
      | Map_Info \<Rightarrow> Inr (Map_View (initial_view_state df)))"

text \<open>
  One statement. A run ends early, and \<open>stopped\<close> holds why, after
  \<^verbatim>\<open>st.stop()\<close> in a handler of the load and after an exception that nothing
  catches: nothing more of the script runs then.
\<close>

definition exec :: "inputs \<Rightarrow> stmt \<Rightarrow> state \<Rightarrow> state" where
  "exec inp st s =
     (if stopped s \<noteq> None then s
      else case st of
        Load_Data \<Rightarrow>
          (case load (csv inp) of
             Inl msg \<Rightarrow> s\<lparr>stopped := Some msg\<rparr>
           | Inr df \<Rightarrow> s\<lparr>data := df\<rparr>)
      | Region_Summaries \<Rightarrow>
          s\<lparr>summary_default := Some (region_summary (data s) None),
            summary_custom := Some (region_summary (data s) (Some ''US-MA''))\<rparr>
      | Render_Page \<Rightarrow>
          (case render_page inp (data s) of
             Inl exn \<Rightarrow> s\<lparr>stopped := Some exn\<rparr>
           | Inr v \<Rightarrow> s\<lparr>shown := Some v\<rparr>)
      | Region_Lengths \<Rightarrow>
          s\<lparr>region_lengths := Some (map length (unique (map iso_region (data s))))\<rparr>
      | Name_Length \<Rightarrow> s\<lparr>data := add_name_length (data s)\<rparr>
      | High_Altitude \<Rightarrow> s\<lparr>data := add_high_altitude (data s)\<rparr>)"

definition run :: "inputs \<Rightarrow> stmt list \<Rightarrow> state \<Rightarrow> state" where
  "run inp stmts s = fold (exec inp) stmts s"

definition script :: "stmt list" where
  "script = [Load_Data, Region_Summaries, Render_Page, Region_Lengths, Name_Length, High_Altitude]"

definition initial :: state where
  "initial =
     \<lparr>data = [], stopped = None, summary_default = None, summary_custom = None,
      shown = None, region_lengths = None\<rparr>"

text \<open>Two properties of a table: no coordinate is missing; no derived cell is assigned.\<close>

definition coordinates_present :: "dataframe \<Rightarrow> bool" where
  "coordinates_present df =
     list_all (\<lambda>r. latitude_deg r \<noteq> None \<and> longitude_deg r \<noteq> None) df"


subsection \<open>A small table\<close>

text \<open>
  Lines of a file for the concrete checks below: two airports of equal elevation,
  one without elevation and municipality, one without latitude, and one above 2000
  feet.
\<close>

definition csv_line ::
  "string \<Rightarrow> string option \<Rightarrow> string \<Rightarrow> string \<Rightarrow> string \<Rightarrow> float64 \<Rightarrow>
   float64 \<Rightarrow> float64 \<Rightarrow> csv_row" where
  "csv_line n m reg t sch e la lo =
     \<lparr>name = n, municipality = m, iso_region = reg, type = t, scheduled_service = sch,
      elevation_ft = e, latitude_deg = la, longitude_deg = lo\<rparr>"

definition bradley :: csv_row where
  "bradley = csv_line ''Bradley International Airport'' (Some ''Windsor Locks'') ''US-CT''
     ''large_airport'' ''yes'' (Some 173) (Some 42) (Some (- 73))"

definition brainard :: csv_row where
  "brainard = csv_line ''Hartford Brainard Airport'' (Some ''Hartford'') ''US-CT''
     ''small_airport'' ''no'' (Some 18) (Some 41) (Some (- 72))"

definition logan :: csv_row where
  "logan = csv_line ''Logan International Airport'' (Some ''Boston'') ''US-MA''
     ''large_airport'' ''yes'' (Some 18) (Some 42) (Some (- 71))"

definition helipad :: csv_row where
  "helipad = csv_line ''Hospital Heliport'' None ''US-MA''
     ''heliport'' ''no'' None (Some 43) (Some (- 71))"

definition unplaced :: csv_row where
  "unplaced = csv_line ''Unplaced Strip'' (Some ''Stowe'') ''US-VT''
     ''small_airport'' ''no'' (Some 2500) None (Some (- 72))"

definition summit :: csv_row where
  "summit = csv_line ''Summit Airstrip'' (Some ''Carrabassett'') ''US-ME''
     ''small_airport'' ''no'' (Some 2500) (Some 45) (Some (- 70))"

definition small_file :: "csv_row list" where
  "small_file = [bradley, brainard, logan, helipad, unplaced]"

definition small_table :: dataframe where
  "small_table = map of_csv [bradley, brainard, logan, helipad]"

definition small_inputs :: inputs where
  "small_inputs =
     \<lparr>csv = Rows small_file, chosen_page = Airport_Filter,
      selected_region = Some ''US-CT'', selected_city = Some ''Hartford'',
      show_scheduled_only = False, quicksort = stable_sort\<rparr>"


text \<open>
  A table of twenty-four airports for the order of ties: the airports at the even
  places all have elevation 500, the highest of the table, and an airport at an odd
  place has its place as elevation. The latitude of an airport is its place in the
  table.
\<close>

definition tied_line :: "nat \<Rightarrow> csv_row" where
  "tied_line i =
     csv_line ''Field'' None ''US-ME'' ''small_airport'' ''no''
       (Some (if even i then 500 else real i)) (Some (real i)) (Some (- 70))"

definition tied_table :: dataframe where
  "tied_table =
     map (\<lambda>i. of_csv (tied_line i))
       [0, 1, 2, 3, 4, 5, 6, 7, 8, 9, 10, 11, 12, 13, 14, 15, 16, 17, 18, 19, 20, 21, 22, 23]"

lemmas small_defs =
  small_file_def small_table_def small_inputs_def bradley_def brainard_def logan_def
  helipad_def unplaced_def summit_def csv_line_def of_csv_def

lemmas run_simps =
  run_def script_def exec_def load_def initial_def render_page_def region_summary_def
  series_max_def add_name_length_def add_high_altitude_def Let_def default_region_def
  region_airports_def scheduled_only_def city_filtered_airports_def city_section_def
  gt_2000_def pie_def value_counts_def

section \<open>Properties\<close>

subsection \<open>Columns\<close>

lemma dropna_set: "set (dropna xs) = {x. Some x \<in> set xs}"
  by (induction xs rule: dropna.induct) auto

lemma series_max_Max:
  "series_max xs =
     (if {x. Some x \<in> set xs} = {} then None else Some (Max {x. Some x \<in> set xs}))"
proof (cases "dropna xs")
  case Nil
  then have "{x. Some x \<in> set xs} = {}"
    using dropna_set [of xs] by simp
  with Nil show ?thesis by (simp add: series_max_def)
next
  case (Cons y ys)
  then have s: "{x. Some x \<in> set xs} = set (y # ys)"
    using dropna_set [of xs] by simp
  have "fold max ys y = Max (set (y # ys))"
    by (rule Max.set_eq_fold [symmetric])
  then have "series_max xs = Some (Max (set (y # ys)))"
    unfolding series_max_def Cons by (simp only: list.case)
  with s show ?thesis by simp
qed

subsection \<open>region_summary\<close>

lemma region_summary_Some:
  "region_summary df (Some region) =
     (length (filter (\<lambda>r. iso_region r = region) df),
      series_max (map elevation_ft (filter (\<lambda>r. iso_region r = region) df)))"
  by (simp add: region_summary_def Let_def)

lemma elevations_of_subset:
  "{e. Some e \<in> set (map elevation_ft (filter (\<lambda>r. iso_region r = region) df))} =
   {e. \<exists>r \<in> set df. iso_region r = region \<and> elevation_ft r = Some e}"
  by (auto simp: image_iff)

text \<open>
  C1 as the specification states it has the maximum over an empty subset signalled by
  an explicit marker of its own, and not returned as a NaN that passes for a number.
  \<open>region_summary\<close> returns what \<^verbatim>\<open>Series.max()\<close> returns: for a region without
  rows the float NaN, in the place of the maximum. It is the very value that the
  elevation cell of the heliport holds, and the value returned for a table whose only
  row lacks its elevation; nothing else is returned and nothing is raised.
\<close>

theorem maximum_of_empty_region_is_nan:
  "region_summary small_table (Some ''US-NH'') = (0, None)
   \<and> snd (region_summary small_table (Some ''US-NH'')) = elevation_ft (of_csv helipad)
   \<and> region_summary [of_csv helipad] (Some ''US-MA'') = (1, None)"
  by (simp add: small_defs region_summary_def series_max_def Let_def)

text \<open>
  C1, amended. For every table and region code, \<open>region_summary\<close> returns the number
  of rows whose region code is the argument, and the greatest elevation that is present
  among those rows. When none is present, because no row has the region code or because
  every such row lacks its elevation, and only then, the maximum is the float NaN,
  returned in the numeric place: it is not zero, and nothing else signals the case.
\<close>

theorem region_summary_count_and_max:
  "region_summary df (Some region) =
     (length (filter (\<lambda>r. iso_region r = region) df),
      if {e. \<exists>r \<in> set df. iso_region r = region \<and> elevation_ft r = Some e} = {} then None
      else Some (Max {e. \<exists>r \<in> set df. iso_region r = region \<and> elevation_ft r = Some e}))
   \<and> (filter (\<lambda>r. iso_region r = region) df = [] \<longrightarrow>
        region_summary df (Some region) = (0, None))
   \<and> (snd (region_summary df (Some region)) = None \<longleftrightarrow>
        (\<forall>r \<in> set df. iso_region r = region \<longrightarrow> elevation_ft r = None))"
proof -
  have empty: "filter (\<lambda>r. iso_region r = region) df = [] \<Longrightarrow>
        region_summary df (Some region) = (0, None)"
    by (simp add: region_summary_Some series_max_def)
  have "{e. \<exists>r \<in> set df. iso_region r = region \<and> elevation_ft r = Some e} = {} \<longleftrightarrow>
        (\<forall>r \<in> set df. iso_region r = region \<longrightarrow> elevation_ft r = None)"
    by auto (metis option.exhaust)
  then have nan: "snd (region_summary df (Some region)) = None \<longleftrightarrow>
        (\<forall>r \<in> set df. iso_region r = region \<longrightarrow> elevation_ft r = None)"
    unfolding region_summary_Some series_max_Max elevations_of_subset by simp
  show ?thesis
    using empty nan
    unfolding region_summary_Some series_max_Max elevations_of_subset by simp
qed

theorem region_summary_count_and_max_witness:
  "filter (\<lambda>r. iso_region r = ''US-NH'') small_table = []
   \<and> region_summary small_table (Some ''US-NH'') = (0, None)
   \<and> region_summary small_table (Some ''US-CT'') = (2, Some 173)
   \<and> region_summary small_table (Some ''US-MA'') = (2, Some 18)"
  using region_summary_count_and_max [of small_table "''US-NH''"]
  by (simp add: small_defs region_summary_def series_max_def Let_def)



subsection \<open>The derived columns\<close>

text \<open>
  C10. A row whose elevation is missing gets \<open>high_altitude = False\<close> from line 162:
  the comparison with 2000 is False for it, neither missing nor an error.
\<close>

theorem missing_elevation_is_not_high_altitude:
  "i < length df \<Longrightarrow> elevation_ft (df ! i) = None \<Longrightarrow>
     high_altitude (add_high_altitude df ! i) = Some False"
  by (simp add: add_high_altitude_def gt_2000_def)

theorem missing_elevation_is_not_high_altitude_witness:
  "3 < length small_table \<and> elevation_ft (small_table ! 3) = None
   \<and> high_altitude (add_high_altitude small_table ! 3) = Some False"
  using missing_elevation_is_not_high_altitude [of 3 small_table]
  by (simp add: small_defs)

subsection \<open>The centre of the map\<close>

text \<open>
  C2 as the specification states it asks for an \<^verbatim>\<open>EmptyDatasetError\<close> on a table
  without rows. The script has no such error: \<^verbatim>\<open>Series.mean()\<close> of an empty column
  is NaN, and the map page of a run over a file whose only line lacks its latitude,
  so that no row is left after the load, is shown, centred on (NaN, NaN).
\<close>

theorem mean_of_empty_table_is_nan:
  "initial_view_state [] = \<lparr>latitude = None, longitude = None, zoom = 5, pitch = 0\<rparr>
   \<and> run (small_inputs\<lparr>csv := Rows [unplaced], chosen_page := Map_Info\<rparr>) script initial =
       initial\<lparr>summary_default := Some (0, None), summary_custom := Some (0, None),
         shown := Some (Map_View \<lparr>latitude = None, longitude = None, zoom = 5, pitch = 0\<rparr>),
         region_lengths := Some []\<rparr>"
  by (simp add: initial_view_state_def series_mean_def run_def script_def exec_def load_def
      small_defs initial_def render_page_def region_summary_def series_max_def
      add_name_length_def add_high_altitude_def Let_def)

text \<open>
  C2, amended. On a table without rows the mean of either coordinate is the undefined
  marker NaN, and nothing is raised; on a table of one row the means are exactly that
  row's latitude and longitude.
\<close>

theorem mean_coordinate_empty_and_single:
  "latitude (initial_view_state []) = None \<and> longitude (initial_view_state []) = None
   \<and> (latitude_deg r = Some la \<and> longitude_deg r = Some lo \<longrightarrow>
        latitude (initial_view_state [r]) = Some la
        \<and> longitude (initial_view_state [r]) = Some lo)"
  by (simp add: initial_view_state_def series_mean_def)

theorem mean_coordinate_empty_and_single_witness:
  "latitude_deg (of_csv logan) = Some 42 \<and> longitude_deg (of_csv logan) = Some (- 71)
   \<and> latitude (initial_view_state [of_csv logan]) = Some 42
   \<and> longitude (initial_view_state [of_csv logan]) = Some (- 71)"
  using mean_coordinate_empty_and_single [of "of_csv logan" 42 "- 71"]
  by (simp add: small_defs)

subsection \<open>The choices of the select boxes\<close>

lemma set_unique: "set (unique xs) = set xs"
  by (induction xs rule: unique.induct) auto

lemma distinct_unique: "distinct (unique xs)"
  by (induction xs rule: unique.induct) (auto simp: set_unique)

lemma strictly_ascending_sort_unique: "sorted_wrt (<) (sort (unique xs))"
  by (simp add: strict_sorted_iff distinct_unique)

text \<open>
  C7. The region codes offered (line 60) and the municipalities offered (line 64) are
  the values of their column that are present, each once, in strictly ascending order
  of the strings; a missing municipality is not among them.
\<close>

theorem distinct_values_strictly_ascending:
  "sorted_wrt (<) (region_list df) \<and> distinct (region_list df)
   \<and> set (region_list df) = {v. \<exists>r \<in> set df. iso_region r = v}
   \<and> sorted_wrt (<) (city_list df) \<and> distinct (city_list df)
   \<and> set (city_list df) = {v. \<exists>r \<in> set df. municipality r = Some v}"
proof -
  have "set (region_list df) = {v. \<exists>r \<in> set df. iso_region r = v}"
    by (auto simp: region_list_def set_unique)
  moreover have "set (city_list df) = {v. \<exists>r \<in> set df. municipality r = Some v}"
    by (force simp: city_list_def set_unique dropna_set image_iff)
  ultimately show ?thesis
    by (simp add: region_list_def city_list_def strictly_ascending_sort_unique distinct_unique)
qed

theorem distinct_values_strictly_ascending_witness:
  "region_list small_table = [''US-CT'', ''US-MA'']
   \<and> city_list small_table = [''Boston'', ''Hartford'', ''Windsor Locks'']
   \<and> sorted_wrt (<) (city_list small_table)"
  using distinct_values_strictly_ascending [of small_table]
  by (simp add: small_defs region_list_def city_list_def)

subsection \<open>The two filters\<close>

lemma cell_eq_iff: "cell_eq a b \<longleftrightarrow> a = b \<and> a \<noteq> None"
  by (cases a; cases b) auto

text \<open>
  C9. The airports shown for a region and a city (line 80, with or without the
  scheduled-service box ticked) are among the airports of the region (line 63), in the
  same order; each has the region code and the municipality asked for. A filter that
  matches nothing returns the empty table: the page then shows its sentence, and the
  filter page does not end the run.
\<close>

theorem city_filter_within_region_filter:
  "subseq (city_filtered_airports (scheduled_only checked (region_airports df region)) city)
          (region_airports df region)
   \<and> set (city_filtered_airports (scheduled_only checked (region_airports df region)) city)
        \<subseteq> set (region_airports df region)
   \<and> (\<forall>r \<in> set (city_filtered_airports (scheduled_only checked (region_airports df region)) city).
         Some (iso_region r) = region \<and> municipality r = city \<and> city \<noteq> None)
   \<and> ((\<forall>r \<in> set df. Some (iso_region r) \<noteq> region) \<longrightarrow> region_airports df region = [])
   \<and> (city_filtered_airports (scheduled_only checked (region_airports df region)) city = [] \<longrightarrow>
        city_section (city_filtered_airports (scheduled_only checked (region_airports df region)) city)
          = Text ''No airports found in this city.'')
   \<and> (chosen_page inp = Airport_Filter \<longrightarrow> stopped (exec inp Render_Page s) = stopped s)"
proof -
  let ?region = "region_airports df region"
  let ?city = "city_filtered_airports (scheduled_only checked ?region) city"
  have f: "?city =
      filter (\<lambda>r. (checked \<longrightarrow> scheduled_service r = ''yes'') \<and> cell_eq (municipality r) city)
        ?region"
    by (auto simp: city_filtered_airports_def scheduled_only_def intro: filter_cong)
  have a: "subseq ?city ?region"
    unfolding f by (rule subseq_filter_left)
  have b: "set ?city \<subseteq> set ?region"
    unfolding f by auto
  have c: "\<forall>r \<in> set ?city. Some (iso_region r) = region \<and> municipality r = city \<and> city \<noteq> None"
    unfolding f by (auto simp: region_airports_def cell_eq_iff)
  have d: "(\<forall>r \<in> set df. Some (iso_region r) \<noteq> region) \<longrightarrow> ?region = []"
    by (auto simp: region_airports_def filter_empty_conv cell_eq_iff)
  have e: "?city = [] \<longrightarrow> city_section ?city = Text ''No airports found in this city.''"
    by (simp add: city_section_def)
  have g: "chosen_page inp = Airport_Filter \<longrightarrow> stopped (exec inp Render_Page s) = stopped s"
    by (simp add: exec_def render_page_def Let_def)
  from a b c d e g show ?thesis by blast
qed

theorem city_filter_within_region_filter_witness:
  "''US-NH'' \<notin> set (map iso_region small_table)
   \<and> chosen_page small_inputs = Airport_Filter
   \<and> region_airports small_table (Some ''US-NH'') = []
   \<and> city_filtered_airports (scheduled_only True (region_airports small_table (Some ''US-NH'')))
        (Some ''Hartford'') = []
   \<and> city_section
        (city_filtered_airports (scheduled_only True (region_airports small_table (Some ''US-NH'')))
           (Some ''Hartford''))
        = Text ''No airports found in this city.''
   \<and> city_filtered_airports (scheduled_only False (region_airports small_table (Some ''US-CT'')))
        (Some ''Hartford'') = [of_csv brainard]"
  using city_filter_within_region_filter
    [of True small_table "Some ''US-NH''" "Some ''Hartford''" small_inputs initial]
  by (simp add: small_defs region_airports_def city_filtered_airports_def scheduled_only_def
      city_section_def)

subsection \<open>The pivot table\<close>

lemma length_filter_disjoint:
  "(\<And>x. \<not> (a x \<and> b x)) \<Longrightarrow>
   length (filter (\<lambda>x. a x \<or> b x) xs) = length (filter a xs) + length (filter b xs)"
  by (induction xs) auto

lemma count_over_labels_in:
  "distinct ks \<Longrightarrow>
   (\<Sum>k\<leftarrow>ks. length (filter (\<lambda>x. f x = k \<and> p x) xs))
     = length (filter (\<lambda>x. f x \<in> set ks \<and> p x) xs)"
proof (induction ks)
  case Nil
  then show ?case by simp
next
  case (Cons k ks)
  have "length (filter (\<lambda>x. (f x = k \<and> p x) \<or> (f x \<in> set ks \<and> p x)) xs)
      = length (filter (\<lambda>x. f x = k \<and> p x) xs) + length (filter (\<lambda>x. f x \<in> set ks \<and> p x) xs)"
    using Cons.prems by (intro length_filter_disjoint) auto
  moreover have "(\<lambda>x. f x \<in> set (k # ks) \<and> p x) = (\<lambda>x. (f x = k \<and> p x) \<or> (f x \<in> set ks \<and> p x))"
    by auto
  ultimately show ?case using Cons by simp
qed

lemma count_over_labels:
  assumes "distinct ks" and "f ` set xs \<subseteq> set ks"
  shows "(\<Sum>k\<leftarrow>ks. length (filter (\<lambda>x. f x = k \<and> p x) xs)) = length (filter p xs)"
proof -
  have "filter (\<lambda>x. f x \<in> set ks \<and> p x) xs = filter p xs"
    using assms(2) by (intro filter_cong) auto
  with count_over_labels_in [OF assms(1), of f p xs] show ?thesis by simp
qed

lemma group_size_fill:
  "(case group_size idx col df (r, c) of None \<Rightarrow> 0 | Some n \<Rightarrow> int n)
     = int (length (filter (\<lambda>x. idx x = r \<and> col x = c) df))"
  by (auto simp: group_size_def filter_empty_conv)

lemma cells_pivot_table:
  "cells (pivot_table df idx col 0) =
     map (\<lambda>r. map (\<lambda>c. int (length (filter (\<lambda>x. idx x = r \<and> col x = c) df)))
                (sort (unique (map col df))))
         (sort (unique (map idx df)))"
  by (simp add: pivot_table_def Let_def group_size_fill)

lemma index_pivot_table: "index (pivot_table df idx col fv) = sort (unique (map idx df))"
  by (simp add: pivot_table_def Let_def)

lemma columns_pivot_table: "columns (pivot_table df idx col fv) = sort (unique (map col df))"
  by (simp add: pivot_table_def Let_def)

lemma int_sum_list: "int (sum_list ns) = (\<Sum>n\<leftarrow>ns. int n)"
  by (induction ns) auto

lemma row_sum:
  "(\<Sum>c\<leftarrow>sort (unique (map col df)). int (length (filter (\<lambda>x. idx x = r \<and> col x = c) df)))
     = int (length (filter (\<lambda>x. idx x = r) df))"
proof -
  have "(\<Sum>c\<leftarrow>sort (unique (map col df)). length (filter (\<lambda>x. col x = c \<and> idx x = r) df))
      = length (filter (\<lambda>x. idx x = r) df)"
    by (rule count_over_labels) (simp_all add: distinct_unique set_unique)
  then have "int (\<Sum>c\<leftarrow>sort (unique (map col df)). length (filter (\<lambda>x. col x = c \<and> idx x = r) df))
      = int (length (filter (\<lambda>x. idx x = r) df))" by simp
  then show ?thesis
    by (simp add: int_sum_list o_def conj_commute)
qed

lemma grid_sum:
  "(\<Sum>r\<leftarrow>sort (unique (map idx df)). int (length (filter (\<lambda>x. idx x = r) df)))
     = int (length df)"
proof -
  have "(\<Sum>r\<leftarrow>sort (unique (map idx df)). length (filter (\<lambda>x. idx x = r \<and> True) df))
      = length (filter (\<lambda>x. True) df)"
    by (rule count_over_labels) (simp_all add: distinct_unique set_unique)
  then have "int (\<Sum>r\<leftarrow>sort (unique (map idx df)). length (filter (\<lambda>x. idx x = r) df))
      = int (length df)" by simp
  then show ?thesis
    by (simp add: int_sum_list o_def)
qed

lemma sum_cells_pivot_table:
  "(\<Sum>row\<leftarrow>cells (pivot_table df idx col 0). sum_list row) = int (length df)"
  by (simp add: cells_pivot_table o_def row_sum grid_sum)

text \<open>
  C6. The pivot table is a dense grid: one row for each region code that occurs and
  one column for each type that occurs, both sorted. Every cell holds the number of
  rows of the table with that pair of labels; a pair that no row has holds 0; no cell
  is negative; and the cells add up to the number of rows of the table.
\<close>

theorem pivot_is_dense_grid_of_counts:
  "index (pivot_table df idx col 0) = sort (unique (map idx df))
   \<and> columns (pivot_table df idx col 0) = sort (unique (map col df))
   \<and> set (index (pivot_table df idx col 0)) = idx ` set df
   \<and> set (columns (pivot_table df idx col 0)) = col ` set df
   \<and> length (cells (pivot_table df idx col 0)) = length (index (pivot_table df idx col 0))
   \<and> (\<forall>i < length (index (pivot_table df idx col 0)).
        length (cells (pivot_table df idx col 0) ! i) = length (columns (pivot_table df idx col 0))
        \<and> (\<forall>j < length (columns (pivot_table df idx col 0)).
             cells (pivot_table df idx col 0) ! i ! j
               = int (length (filter (\<lambda>x. idx x = index (pivot_table df idx col 0) ! i
                                         \<and> col x = columns (pivot_table df idx col 0) ! j) df))
             \<and> 0 \<le> cells (pivot_table df idx col 0) ! i ! j
             \<and> ((\<forall>x \<in> set df. \<not> (idx x = index (pivot_table df idx col 0) ! i
                                    \<and> col x = columns (pivot_table df idx col 0) ! j))
                  \<longrightarrow> cells (pivot_table df idx col 0) ! i ! j = 0)))
   \<and> (\<Sum>row\<leftarrow>cells (pivot_table df idx col 0). sum_list row) = int (length df)
   \<and> pivot df = pivot_table df iso_region type 0"
proof -
  have cell: "cells (pivot_table df idx col 0) ! i ! j
      = int (length (filter (\<lambda>x. idx x = index (pivot_table df idx col 0) ! i
                                \<and> col x = columns (pivot_table df idx col 0) ! j) df))"
    if "i < length (index (pivot_table df idx col 0))"
      and "j < length (columns (pivot_table df idx col 0))" for i j
    using that by (simp add: cells_pivot_table index_pivot_table columns_pivot_table)
  have width: "length (cells (pivot_table df idx col 0) ! i) = length (columns (pivot_table df idx col 0))"
    if "i < length (index (pivot_table df idx col 0))" for i
    using that by (simp add: cells_pivot_table index_pivot_table columns_pivot_table)
  have zero: "cells (pivot_table df idx col 0) ! i ! j = 0"
    if "i < length (index (pivot_table df idx col 0))"
      and "j < length (columns (pivot_table df idx col 0))"
      and "\<forall>x \<in> set df. \<not> (idx x = index (pivot_table df idx col 0) ! i
                                    \<and> col x = columns (pivot_table df idx col 0) ! j)" for i j
    using that by (simp add: cell filter_empty_conv)
  have labels: "set (index (pivot_table df idx col 0)) = idx ` set df"
    "set (columns (pivot_table df idx col 0)) = col ` set df"
    by (simp_all add: index_pivot_table columns_pivot_table set_unique)
  have height: "length (cells (pivot_table df idx col 0)) = length (index (pivot_table df idx col 0))"
    by (simp add: cells_pivot_table index_pivot_table)
  show ?thesis
    using cell width zero labels height sum_cells_pivot_table [of df idx col]
    by (simp add: index_pivot_table columns_pivot_table pivot_def)
qed

theorem pivot_is_dense_grid_of_counts_witness:
  "pivot small_table =
     \<lparr>index = [''US-CT'', ''US-MA''],
      columns = [''heliport'', ''large_airport'', ''small_airport''],
      cells = [[0, 1, 1], [1, 1, 0]]\<rparr>
   \<and> (0::nat) < length (index (pivot small_table))
   \<and> (0::nat) < length (columns (pivot small_table))
   \<and> ''heliport'' \<notin> set (map type (filter (\<lambda>x. iso_region x = ''US-CT'') small_table))
   \<and> (\<Sum>row\<leftarrow>cells (pivot small_table). sum_list row) = 4"
  using pivot_is_dense_grid_of_counts [of small_table iso_region type]
  by (simp add: small_defs pivot_def pivot_table_def group_size_def Let_def)

subsection \<open>The highest airports\<close>

lemma sorting_routine_mset: "sorting_routine srt \<Longrightarrow> mset (srt key xs) = mset xs"
  by (simp add: sorting_routine_def)

lemma sorting_routine_sorted:
  "sorting_routine srt \<Longrightarrow> sorted_wrt (\<lambda>a b. key a \<le> key b) (srt key xs)"
  by (simp add: sorting_routine_def sorted_wrt_map [symmetric])

lemma sorting_routine_set: "sorting_routine srt \<Longrightarrow> set (srt key xs) = set xs"
  by (rule mset_eq_setD) (rule sorting_routine_mset)

lemma sorting_routine_stable_sort: "sorting_routine stable_sort"
  by (simp add: sorting_routine_def stable_sort_def)

lemma sorting_routine_backward_sort: "sorting_routine backward_sort"
  by (simp add: sorting_routine_def backward_sort_def)

lemma mset_sort_values:
  assumes "sorting_routine srt"
  shows "mset (sort_values srt col ascending df) = mset df"
proof -
  have "mset (filter (\<lambda>r. col r \<noteq> None) df) + mset (filter (\<lambda>r. col r = None) df) = mset df"
    by (induction df) auto
  then show ?thesis
    by (simp add: sort_values_def Let_def sorting_routine_mset [OF assms] del: mset_filter)
qed

lemma length_sort_values:
  "sorting_routine srt \<Longrightarrow> length (sort_values srt col ascending df) = length df"
  by (rule mset_eq_length) (rule mset_sort_values)

lemma key_order_present:
  "col x \<noteq> None \<Longrightarrow> col y \<noteq> None \<Longrightarrow>
   key_order ascending (col x) (col y)
     = (if ascending then the (col x) \<le> the (col y) else the (col y) \<le> the (col x))"
  by (cases "col x"; cases "col y") (simp_all add: key_order_def)

lemma present_part_ordered:
  assumes "sorting_routine srt" and "\<forall>r \<in> set xs. col r \<noteq> None"
  shows "sorted_wrt (\<lambda>a b. key_order ascending (col a) (col b))
           (if ascending then srt (\<lambda>r. the (col r)) xs else rev (srt (\<lambda>r. the (col r)) (rev xs)))"
proof (cases ascending)
  case True
  have "sorted_wrt (\<lambda>a b. key_order True (col a) (col b)) (srt (\<lambda>r. the (col r)) xs)"
    using sorting_routine_sorted [OF assms(1), of "\<lambda>r. the (col r)" xs]
  proof (rule sorted_wrt_mono_rel [rotated])
    fix x y assume "x \<in> set (srt (\<lambda>r. the (col r)) xs)" "y \<in> set (srt (\<lambda>r. the (col r)) xs)"
      "the (col x) \<le> the (col y)"
    then show "key_order True (col x) (col y)"
      using assms(2) by (simp add: key_order_present sorting_routine_set [OF assms(1)])
  qed
  with True show ?thesis by simp
next
  case False
  have "sorted_wrt (\<lambda>a b. key_order False (col b) (col a)) (srt (\<lambda>r. the (col r)) (rev xs))"
    using sorting_routine_sorted [OF assms(1), of "\<lambda>r. the (col r)" "rev xs"]
  proof (rule sorted_wrt_mono_rel [rotated])
    fix x y assume "x \<in> set (srt (\<lambda>r. the (col r)) (rev xs))" "y \<in> set (srt (\<lambda>r. the (col r)) (rev xs))"
      "the (col x) \<le> the (col y)"
    then show "key_order False (col y) (col x)"
      using assms(2) by (simp add: key_order_present sorting_routine_set [OF assms(1)])
  qed
  with False show ?thesis by (simp add: sorted_wrt_rev)
qed

lemma sort_values_ordered:
  assumes "sorting_routine srt"
  shows "sorted_wrt (\<lambda>a b. key_order ascending (col a) (col b)) (sort_values srt col ascending df)"
proof -
  let ?present = "filter (\<lambda>r. col r \<noteq> None) df"
  let ?sorted = "if ascending then srt (\<lambda>r. the (col r)) ?present
                 else rev (srt (\<lambda>r. the (col r)) (rev ?present))"
  have p: "sorted_wrt (\<lambda>a b. key_order ascending (col a) (col b)) ?sorted"
    by (rule present_part_ordered [OF assms]) simp
  have m: "sorted_wrt (\<lambda>a b. key_order ascending (col a) (col b)) (filter (\<lambda>r. col r = None) df)"
    by (rule sorted_wrt_mono_rel [of _ "\<lambda>a b. True"]) (auto simp: key_order_def)
  have s: "set ?sorted = set ?present"
    by (simp add: sorting_routine_set [OF assms])
  have c: "\<forall>x \<in> set ?sorted. \<forall>y \<in> set (filter (\<lambda>r. col r = None) df).
             key_order ascending (col x) (col y)"
    unfolding s by (auto simp: key_order_def)
  have eq: "sort_values srt col ascending df = ?sorted @ filter (\<lambda>r. col r = None) df"
    by (simp add: sort_values_def Let_def)
  show ?thesis
    unfolding eq sorted_wrt_append using p m c by blast
qed

text \<open>
  C5 as the specification states it has the sort stable: rows of equal elevation in
  the order of the table. The script calls \<^verbatim>\<open>sort_values\<close> with its default
  \<^verbatim>\<open>kind='quicksort'\<close>, which pandas documents as not stable, and asks for no
  stable sort, so the ten highest airports are fixed only up to the order of ties. In
  the table of twenty-four airports, twelve of which share the highest elevation, two
  routines that both sort return different airports: the one the first ten of the
  twelve in the order of the table, the other the last ten of them in reverse.
\<close>

theorem tie_order_depends_on_sorting_routine:
  "sorting_routine stable_sort \<and> sorting_routine backward_sort
   \<and> map latitude_deg (top_elev stable_sort tied_table)
     = [Some 0, Some 2, Some 4, Some 6, Some 8, Some 10, Some 12, Some 14, Some 16, Some 18]
   \<and> map latitude_deg (top_elev backward_sort tied_table)
     = [Some 22, Some 20, Some 18, Some 16, Some 14, Some 12, Some 10, Some 8, Some 6, Some 4]"
  using sorting_routine_stable_sort sorting_routine_backward_sort
  by (simp add: tied_table_def tied_line_def csv_line_def of_csv_def top_elev_def head_def
      sort_values_def stable_sort_def backward_sort_def Let_def)

text \<open>
  C5, amended. For every table, column, direction and \<open>n\<close>, the first \<open>n\<close> rows
  of the sorted table are \<open>min n |d|\<close> rows of the table, in the order asked for
  with the rows of a missing key last; the script asks for descending elevation and
  ten rows. Which of two rows of equal key comes first is left open.
\<close>

theorem top_rows_length_and_order:
  assumes "sorting_routine srt"
  shows "length (head n (sort_values srt col ascending df)) = min n (length df)
   \<and> head n (sort_values srt col ascending df) = take n (sort_values srt col ascending df)
   \<and> mset (sort_values srt col ascending df) = mset df
   \<and> sorted_wrt (\<lambda>a b. key_order ascending (col a) (col b)) (head n (sort_values srt col ascending df))
   \<and> top_elev srt df = head 10 (sort_values srt elevation_ft False df)"
  using assms
  by (simp add: head_def length_sort_values mset_sort_values sort_values_ordered top_elev_def
      min.commute)

theorem top_rows_length_and_order_witness:
  "sorting_routine stable_sort
   \<and> top_elev stable_sort small_table = map of_csv [bradley, brainard, logan, helipad]
   \<and> head 2 (sort_values stable_sort elevation_ft True small_table) = map of_csv [brainard, logan]
   \<and> length (head 10 (sort_values stable_sort elevation_ft False small_table)) = 4"
  using top_rows_length_and_order [OF sorting_routine_stable_sort, of 10 elevation_ft False small_table]
    sorting_routine_stable_sort
  by (simp add: small_defs top_elev_def head_def sort_values_def stable_sort_def Let_def)

text \<open>
  With a routine that is stable, as \<^verbatim>\<open>kind='stable'\<close> would ask for, the rows of
  equal key stay in the order of the table, in both directions: the two reversals of
  the descending sort cancel.
\<close>

theorem stable_routine_keeps_ties_in_table_order:
  "filter (\<lambda>r. col r = Some k) (sort_values stable_sort col ascending df)
     = filter (\<lambda>r. col r = Some k) df"
proof -
  let ?key = "\<lambda>r. the (col r)"
  let ?present = "filter (\<lambda>r. col r \<noteq> None) df"
  have same: "filter (\<lambda>r. col r = Some k) xs = filter (\<lambda>r. ?key r = k) xs"
    if "\<forall>r \<in> set xs. col r \<noteq> None" for xs
    using that by (intro filter_cong) auto
  have up: "filter (\<lambda>r. col r = Some k) (sort_key ?key ?present) = filter (\<lambda>r. col r = Some k) df"
  proof -
    have "filter (\<lambda>r. col r = Some k) (sort_key ?key ?present)
        = filter (\<lambda>r. ?key r = k) (sort_key ?key ?present)"
      by (rule same) simp
    also have "\<dots> = filter (\<lambda>r. ?key r = k) ?present"
      by (rule sort_key_stable)
    also have "\<dots> = filter (\<lambda>r. col r = Some k) ?present"
      by (rule same [symmetric]) simp
    also have "\<dots> = filter (\<lambda>r. col r = Some k) df"
      by (induction df) auto
    finally show ?thesis .
  qed
  have down: "filter (\<lambda>r. col r = Some k) (rev (sort_key ?key (rev ?present)))
      = filter (\<lambda>r. col r = Some k) df"
  proof -
    have "filter (\<lambda>r. col r = Some k) (sort_key ?key (rev ?present))
        = filter (\<lambda>r. ?key r = k) (sort_key ?key (rev ?present))"
      by (rule same) simp
    also have "\<dots> = filter (\<lambda>r. ?key r = k) (rev ?present)"
      by (rule sort_key_stable)
    also have "\<dots> = filter (\<lambda>r. col r = Some k) (rev ?present)"
      by (rule same [symmetric]) simp
    finally have "filter (\<lambda>r. col r = Some k) (rev (sort_key ?key (rev ?present)))
        = filter (\<lambda>r. col r = Some k) ?present"
      by (simp add: rev_filter [symmetric])
    also have "\<dots> = filter (\<lambda>r. col r = Some k) df"
      by (induction df) auto
    finally show ?thesis .
  qed
  have none: "filter (\<lambda>r. col r = Some k) (filter (\<lambda>r. col r = None) df) = []"
    by (induction df) auto
  show ?thesis
    using up down none by (simp add: sort_values_def stable_sort_def Let_def)
qed

subsection \<open>The table through a run of the script\<close>

lemma load_Rows:
  "load (Rows rs) =
     Inr (map of_csv (filter (\<lambda>r. latitude_deg r \<noteq> None \<and> longitude_deg r \<noteq> None) rs))"
  by (simp add: load_def filter_map o_def of_csv_def)

lemma load_coordinates_present: "load res = Inr df \<Longrightarrow> coordinates_present df"
  by (cases res) (auto simp: load_def coordinates_present_def list_all_iff)


lemma exec_query_data:
  "st = Region_Summaries \<or> st = Render_Page \<or> st = Region_Lengths \<Longrightarrow>
   data (exec inp st s) = data s"
  by (auto simp: exec_def split: sum.splits)

lemma exec_coordinates_present:
  "coordinates_present (data s) \<Longrightarrow> coordinates_present (data (exec inp st s))"
  by (cases st)
     (auto simp: exec_def coordinates_present_def list_all_iff add_name_length_def
        add_high_altitude_def dest: load_coordinates_present split: sum.splits)

lemma run_coordinates_present:
  "coordinates_present (data s) \<Longrightarrow> coordinates_present (data (run inp stmts s))"
  unfolding run_def
  by (induction stmts arbitrary: s) (simp_all add: exec_coordinates_present)

lemma exec_csv_columns:
  "st \<noteq> Load_Data \<Longrightarrow> map csv_row.truncate (data (exec inp st s)) = map csv_row.truncate (data s)"
  by (cases st)
     (auto simp: exec_def add_name_length_def add_high_altitude_def csv_row.truncate_def
        split: sum.splits)

text \<open>
  C3. The load keeps exactly the rows of the file that have both coordinates, so
  every row of the loaded table has a latitude and a longitude. Every later statement
  of the script keeps it so: the summaries, the page and the region lengths leave the
  table as it is, and the two column assignments leave the columns of the file as
  they are.
\<close>

theorem coordinates_present_after_load:
  "(load res = Inr df \<longrightarrow> coordinates_present df)
   \<and> load (Rows rs) =
       Inr (map of_csv (filter (\<lambda>r. latitude_deg r \<noteq> None \<and> longitude_deg r \<noteq> None) rs))
   \<and> (coordinates_present (data s) \<longrightarrow> coordinates_present (data (exec inp st s)))
   \<and> (st = Region_Summaries \<or> st = Render_Page \<or> st = Region_Lengths \<longrightarrow>
        data (exec inp st s) = data s)
   \<and> (st \<noteq> Load_Data \<longrightarrow>
        map csv_row.truncate (data (exec inp st s)) = map csv_row.truncate (data s))
   \<and> (\<forall>k. coordinates_present (data (run inp (take k script) initial)))"
proof -
  have "coordinates_present (data initial)"
    by (simp add: initial_def coordinates_present_def)
  then have "\<forall>k. coordinates_present (data (run inp (take k script) initial))"
    by (simp add: run_coordinates_present)
  then show ?thesis
    using load_coordinates_present [of res df] load_Rows [of rs]
      exec_coordinates_present [of s inp st] exec_query_data [of st inp s]
      exec_csv_columns [of st inp s]
    by blast
qed

theorem coordinates_present_after_load_witness:
  "load (Rows small_file) = Inr small_table
   \<and> coordinates_present small_table
   \<and> data (run small_inputs (take 1 script) initial) = small_table
   \<and> data (exec small_inputs Render_Page (run small_inputs (take 2 script) initial)) = small_table
   \<and> coordinates_present (data (run small_inputs script initial))"
  using coordinates_present_after_load
    [of "Rows small_file" small_table small_file "run small_inputs (take 2 script) initial"
        small_inputs Render_Page]
  by (simp add: run_simps small_defs coordinates_present_def)













end
